theory Spec2Isabelle
  imports Complex_Main
begin

section \<open>SceneJS.BoundingBox: data model\<close>

text \<open>
  The model follows \<^verbatim>\<open>src/scenejs/boundary/boundingBox.js\<close>. The selected level
  \<^verbatim>\<open>_level\<close> is an \<^typ>\<open>int\<close> (it starts at -1). The six extents are only stored and
  copied, and are modelled as \<^typ>\<open>real\<close>.
\<close>

text \<open>
  The thresholds and the projected size are compared, so they are JavaScript numbers with
  their comparisons: a number or NaN, and \<^verbatim>\<open><=\<close>, \<^verbatim>\<open>>=\<close> and \<^verbatim>\<open><\<close> are false as soon as
  one side is NaN.
\<close>

datatype jsnum = Num real | NaN

fun jsLe :: "jsnum \<Rightarrow> jsnum \<Rightarrow> bool" where
  "jsLe (Num a) (Num b) = (a \<le> b)"
| "jsLe x y = False"

fun jsGe :: "jsnum \<Rightarrow> jsnum \<Rightarrow> bool" where
  "jsGe (Num a) (Num b) = (a \<ge> b)"
| "jsGe x y = False"

fun jsLt :: "jsnum \<Rightarrow> jsnum \<Rightarrow> bool" where
  "jsLt (Num a) (Num b) = (a < b)"
| "jsLt x y = False"

text \<open>The five state constants, lines 106-132; \<open>stateCode\<close> gives their numeric values.\<close>

datatype bbstate =
    STATE_INITIAL
  | STATE_OUTSIDE_OUTER_LOCALITY
  | STATE_INTERSECTING_OUTER_LOCALITY
  | STATE_INTERSECTING_INNER_LOCALITY
  | STATE_INTERSECTING_FRUSTUM

fun stateCode :: "bbstate \<Rightarrow> nat" where
  "stateCode STATE_INITIAL = 0"
| "stateCode STATE_OUTSIDE_OUTER_LOCALITY = 1"
| "stateCode STATE_INTERSECTING_OUTER_LOCALITY = 2"
| "stateCode STATE_INTERSECTING_INNER_LOCALITY = 3"
| "stateCode STATE_INTERSECTING_FRUSTUM = 4"

text \<open>
  The three results of \<^verbatim>\<open>SceneJS._frustumModule.testAxisBoxIntersection\<close> that the
  \<^verbatim>\<open>switch\<close> of lines 416-473 distinguishes (\<^verbatim>\<open>SceneJS._math_INTERSECT_FRUSTUM\<close>,
  \<^verbatim>\<open>SceneJS._math_INSIDE_FRUSTUM\<close>, \<^verbatim>\<open>SceneJS._math_OUTSIDE_FRUSTUM\<close>).
\<close>

datatype frustumResult = INTERSECT_FRUSTUM | INSIDE_FRUSTUM | OUTSIDE_FRUSTUM

type_synonym point3 = "real list"

record box3 =
  bmin :: point3
  bmax :: point3

text \<open>
  The parameter object read by \<^verbatim>\<open>_init\<close>; an absent property is \<open>None\<close>.
\<close>

record params =
  p_xmin :: "real option"
  p_ymin :: "real option"
  p_zmin :: "real option"
  p_xmax :: "real option"
  p_ymax :: "real option"
  p_zmax :: "real option"
  p_levels :: "jsnum list option"

text \<open>
  The fields of a bounding box node (constructor, lines 81-99), with those of
  \<^verbatim>\<open>SceneJS.Node\<close> that this file reads: \<^verbatim>\<open>_children\<close> (child identifiers),
  \<^verbatim>\<open>_listeners\<close> (the event names that have a listener), \<^verbatim>\<open>_fixedParams\<close> and
  \<^verbatim>\<open>_memoLevel\<close>. The field \<^verbatim>\<open>_states\<close> is only read into an unused local
  (line 445) and is left out.
\<close>

record boundingBox =
  xmin :: real
  ymin :: real
  zmin :: real
  xmax :: real
  ymax :: real
  zmax :: real
  levels :: "jsnum list option"
  level :: int
  state :: bbstate
  memoLevel :: nat
  objectCoords :: "point3 list option"
  viewBox :: "box3 option"
  children :: "nat list"
  listeners :: "string set"
  fixedParams :: bool

text \<open>The model transform returned by \<^verbatim>\<open>SceneJS._modelTransformModule.getTransform()\<close>.\<close>

record transform =
  identity :: bool
  fixed :: bool
  matrix :: "real list"

text \<open>
  What the collaborators answer during one call of \<^verbatim>\<open>_render\<close>: the parameters that
  \<^verbatim>\<open>this._getParams(data)\<close> yields, the model transform, the instancing flag, the
  composition \<^verbatim>\<open>new SceneJS._math_Box3().fromPoints(SceneJS._math_transformPoints3(m, cs))\<close>,
  the two locality tests, the frustum test and the projected size, each a function of the
  view-space box it is given.
\<close>

record env =
  getParams :: params
  getTransform :: transform
  instancing :: bool
  transformBox :: "real list \<Rightarrow> point3 list option \<Rightarrow> box3"
  testAxisBoxIntersectOuterRadius :: "box3 option \<Rightarrow> bool"
  testAxisBoxIntersectInnerRadius :: "box3 option \<Rightarrow> bool"
  testAxisBoxIntersection :: "box3 option \<Rightarrow> frustumResult"
  getProjectedSize :: "box3 option \<Rightarrow> jsnum"

text \<open>
  Everything \<^verbatim>\<open>_render\<close> does to the outside, in order: the collaborator calls, the
  events handed to \<^verbatim>\<open>_fireEvent\<close> with their payload, and the child dispatch calls
  \<^verbatim>\<open>_renderNode(i, ...)\<close> and \<^verbatim>\<open>_renderNodes(...)\<close>.
\<close>

datatype event =
    StateChanged bbstate bbstate \<comment> \<open>\<^verbatim>\<open>oldState\<close>, \<^verbatim>\<open>newState\<close>\<close>
  | LodSelected int int \<comment> \<open>\<^verbatim>\<open>oldLevel\<close>, \<^verbatim>\<open>newLevel\<close>\<close>

datatype call =
    GetParams
  | GetTransform
  | Instancing
  | TestOuterRadius
  | TestInnerRadius
  | TestFrustum
  | GetProjectedSize
  | FireEvent event
  | RenderNode nat
  | RenderNodes

datatype error = NodeConfigExpectedException string

text \<open>
  The result of a completed \<^verbatim>\<open>_render\<close>: the node as mutated, the value of the local
  variable \<^verbatim>\<open>newState\<close> when the function returns, and the calls made.
\<close>

record outcome =
  node :: boundingBox
  newState :: bbstate
  trace :: "call list"

section \<open>Operations\<close>

text \<open>\<^verbatim>\<open>_changeState\<close>, lines 135-143: the field is assigned first, then read for \<^verbatim>\<open>oldState\<close>.\<close>

definition changeState :: "boundingBox \<Rightarrow> bbstate \<Rightarrow> boundingBox \<times> call list" where
  "changeState b ns =
     (let b1 = b\<lparr>state := ns\<rparr> in
      if ''state-changed'' \<in> listeners b1
      then (b1, [FireEvent (StateChanged (state b1) ns)])
      else (b1, []))"

text \<open>The setters, lines 152-310.\<close>

definition setXMin :: "boundingBox \<Rightarrow> real \<Rightarrow> boundingBox" where
  "setXMin b v = b\<lparr>xmin := v, memoLevel := 0\<rparr>"

definition setYMin :: "boundingBox \<Rightarrow> real \<Rightarrow> boundingBox" where
  "setYMin b v = b\<lparr>ymin := v, memoLevel := 0\<rparr>"

definition setZMin :: "boundingBox \<Rightarrow> real \<Rightarrow> boundingBox" where
  "setZMin b v = b\<lparr>zmin := v, memoLevel := 0\<rparr>"

definition setXMax :: "boundingBox \<Rightarrow> real \<Rightarrow> boundingBox" where
  "setXMax b v = b\<lparr>xmax := v, memoLevel := 0\<rparr>"

definition setYMax :: "boundingBox \<Rightarrow> real \<Rightarrow> boundingBox" where
  "setYMax b v = b\<lparr>ymax := v, memoLevel := 0\<rparr>"

definition setZMax :: "boundingBox \<Rightarrow> real \<Rightarrow> boundingBox" where
  "setZMax b v = b\<lparr>zmax := v, memoLevel := 0\<rparr>"

text \<open>\<^verbatim>\<open>x || 0\<close> on a number or an absent property.\<close>

definition orZero :: "real option \<Rightarrow> real" where
  "orZero v = (case v of None \<Rightarrow> 0 | Some x \<Rightarrow> x)"

text \<open>
  The loop of lines 343-348, started at \<open>i = 1\<close>: \<open>True\<close> when it throws.
\<close>

function ascendingLoop :: "jsnum list \<Rightarrow> nat \<Rightarrow> bool" where
  "ascendingLoop ls i =
     (if i < length ls
      then (if jsGe (ls ! (i - 1)) (ls ! i) then True else ascendingLoop ls (i + 1))
      else False)"
  by pat_completeness auto
termination
  by (relation "measure (\<lambda>(ls, i). length ls - i)") auto

declare ascendingLoop.simps [simp del]

text \<open>
  \<^verbatim>\<open>_init\<close>, lines 330-351; \<open>initExtents\<close> is its first six assignments (lines
  331-336). A \<^verbatim>\<open>throw\<close> is \<open>Inl\<close>, carrying the node as it stands when the exception
  leaves the function.
\<close>

definition initExtents :: "boundingBox \<Rightarrow> params \<Rightarrow> boundingBox" where
  "initExtents b p =
     b\<lparr>xmin := orZero (p_xmin p), ymin := orZero (p_ymin p),
       zmin := orZero (p_zmin p), xmax := orZero (p_xmax p),
       ymax := orZero (p_ymax p), zmax := orZero (p_zmax p)\<rparr>"

definition init :: "boundingBox \<Rightarrow> params \<Rightarrow> (error \<times> boundingBox) + boundingBox" where
  "init b p =
     (let b1 = initExtents b p in
      case p_levels p of
        None \<Rightarrow> Inr b1
      | Some ls \<Rightarrow>
          if length ls \<noteq> length (children b1)
          then Inl (NodeConfigExpectedException
                 ''SceneJS.boundingBox levels property should have a value for each child node'', b1)
          else if ascendingLoop ls 1
          then Inl (NodeConfigExpectedException
                 ''SceneJS.boundingBox levels property should be an ascending list of unique values'', b1)
          else Inr (b1\<lparr>levels := Some ls\<rparr>))"

text \<open>\<^verbatim>\<open>setBoundary\<close>, lines 301-310.\<close>

definition setBoundary :: "boundingBox \<Rightarrow> params \<Rightarrow> boundingBox" where
  "setBoundary b boundary = (initExtents b boundary)\<lparr>memoLevel := 0\<rparr>"

text \<open>
  The constructor, lines 81-99. \<^verbatim>\<open>SceneJS.Node.apply(this, arguments)\<close> supplies the
  children, \<^verbatim>\<open>_fixedParams\<close> and the static parameters; a fresh node has no listeners
  and memo level 0.
\<close>

definition BoundingBox ::
  "nat list \<Rightarrow> bool \<Rightarrow> params \<Rightarrow> (error \<times> boundingBox) + boundingBox" where
  "BoundingBox cs fp p =
     (let b = \<lparr>xmin = 0, ymin = 0, zmin = 0, xmax = 0, ymax = 0, zmax = 0,
               levels = None, level = -1, state = STATE_INITIAL, memoLevel = 0,
               objectCoords = None, viewBox = None, children = cs, listeners = {},
               fixedParams = fp\<rparr> in
      if fixedParams b then init b p else Inr b)"

text \<open>\<^verbatim>\<open>addListener\<close> of \<^verbatim>\<open>SceneJS.Node\<close>, as far as \<^verbatim>\<open>_listeners[name]\<close> sees it.\<close>

definition addListener :: "boundingBox \<Rightarrow> string \<Rightarrow> boundingBox" where
  "addListener b name = b\<lparr>listeners := insert name (listeners b)\<rparr>"

subsection \<open>\<^verbatim>\<open>_render\<close>, lines 354-492\<close>

text \<open>Lines 360-392: the block run at memo level 0.\<close>

definition memoInit :: "boundingBox \<Rightarrow> env \<Rightarrow> (error \<times> boundingBox) + (boundingBox \<times> call list)" where
  "memoInit b e =
     (if memoLevel b = 0 then
        (let b1 = b\<lparr>state := STATE_INITIAL\<rparr> in
         case (if \<not> fixedParams b1
               then (case init b1 (getParams e) of
                       Inl err \<Rightarrow> Inl err
                     | Inr b2 \<Rightarrow> Inr (b2, [GetParams]))
               else Inr (b1\<lparr>memoLevel := 1\<rparr>, [])) of
           Inl err \<Rightarrow> Inl err
         | Inr (b2, tr) \<Rightarrow>
             (let modelTransform = getTransform e in
              if \<not> identity modelTransform
              then Inr (b2\<lparr>objectCoords := Some
                          [[xmin b2, ymin b2, zmin b2],
                           [xmax b2, ymin b2, zmin b2],
                           [xmax b2, ymax b2, zmin b2],
                           [xmin b2, ymax b2, zmin b2],
                           [xmin b2, ymin b2, zmax b2],
                           [xmax b2, ymin b2, zmax b2],
                           [xmax b2, ymax b2, zmax b2],
                           [xmin b2, ymax b2, zmax b2]]\<rparr>, tr @ [GetTransform])
              else Inr (b2\<lparr>viewBox := Some \<lparr>bmin = [xmin b2, ymin b2, zmin b2],
                                            bmax = [xmax b2, ymax b2, zmax b2]\<rparr>,
                           memoLevel := 2\<rparr>, tr @ [GetTransform])))
      else Inr (b, []))"

text \<open>Lines 394-405: the block run below memo level 2.\<close>

definition memoTransform :: "boundingBox \<Rightarrow> env \<Rightarrow> boundingBox \<times> call list" where
  "memoTransform b e =
     (if memoLevel b < 2 then
        (let modelTransform = getTransform e;
             b1 = b\<lparr>viewBox := Some (transformBox e (matrix modelTransform) (objectCoords b))\<rparr> in
         if fixed modelTransform \<and> memoLevel b1 = 1
         then (if \<not> instancing e
               then (b1\<lparr>objectCoords := None, memoLevel := 2\<rparr>, [GetTransform, Instancing])
               else (b1, [GetTransform, Instancing]))
         else (b1, [GetTransform]))
      else (b, []))"

text \<open>Lines 437-459: the body run for the first index \<open>i\<close> whose threshold is within the size.\<close>

definition lodSelected :: "nat \<Rightarrow> int \<Rightarrow> boundingBox \<Rightarrow> boundingBox \<times> call list" where
  "lodSelected i origLevel b =
     (let b1 = b\<lparr>level := int i\<rparr>;
          fired = (if origLevel \<noteq> level b1
                   then (if ''lod-selected'' \<in> listeners b1
                         then [FireEvent (LodSelected origLevel (level b1))]
                         else [])
                   else []) in
      if length (children b1) > 0
      then (b1, fired @ [RenderNode i])
      else (b1, fired @ [RenderNodes]))"

text \<open>
  The loop of lines 435-461, \<^verbatim>\<open>for (var i = this._levels.length - 1; i >= 0; i--)\<close>;
  the first argument is \<open>i + 1\<close>. The body ends in \<^verbatim>\<open>return\<close>.
\<close>

fun lodLoop :: "nat \<Rightarrow> jsnum list \<Rightarrow> jsnum \<Rightarrow> int \<Rightarrow> boundingBox \<Rightarrow> boundingBox \<times> call list" where
  "lodLoop 0 ls sz origLevel b = (b, [])"
| "lodLoop (Suc i) ls sz origLevel b =
     (if jsLe (ls ! i) sz then lodSelected i origLevel b
      else lodLoop i ls sz origLevel b)"

text \<open>\<^verbatim>\<open>if (newState != origState) { this._changeState(newState); }\<close>\<close>

definition changeIfNew :: "bbstate \<Rightarrow> bbstate \<Rightarrow> boundingBox \<Rightarrow> boundingBox \<times> call list" where
  "changeIfNew ns origState b = (if ns \<noteq> origState then changeState b ns else (b, []))"

text \<open>Lines 426-465: the two frustum cases that fall into the same branch.\<close>

definition inFrustum :: "bbstate \<Rightarrow> int \<Rightarrow> boundingBox \<Rightarrow> env \<Rightarrow> call list \<Rightarrow> outcome" where
  "inFrustum origState origLevel b e tr =
     (let ns = STATE_INTERSECTING_FRUSTUM;
          (b1, t1) = changeIfNew ns origState b in
      case levels b1 of
        Some ls \<Rightarrow>
          (let sz = getProjectedSize e (viewBox b1);
               (b2, t2) = lodLoop (length ls) ls sz origLevel b1 in
           \<lparr>node = b2, newState = ns, trace = tr @ t1 @ [GetProjectedSize] @ t2\<rparr>)
      | None \<Rightarrow> \<lparr>node = b1, newState = ns, trace = tr @ t1 @ [RenderNodes]\<rparr>)"

text \<open>Lines 407-491: the cascade.\<close>

definition classify :: "bbstate \<Rightarrow> int \<Rightarrow> boundingBox \<Rightarrow> env \<Rightarrow> outcome" where
  "classify origState origLevel b e =
     (if testAxisBoxIntersectOuterRadius e (viewBox b) then
        (if testAxisBoxIntersectInnerRadius e (viewBox b) then
           (case testAxisBoxIntersection e (viewBox b) of
              INTERSECT_FRUSTUM \<Rightarrow>
                inFrustum origState origLevel b e [TestOuterRadius, TestInnerRadius, TestFrustum]
            | INSIDE_FRUSTUM \<Rightarrow>
                inFrustum origState origLevel b e [TestOuterRadius, TestInnerRadius, TestFrustum]
            | OUTSIDE_FRUSTUM \<Rightarrow>
                (let ns = STATE_INTERSECTING_INNER_LOCALITY;
                     (b1, t1) = changeIfNew ns origState b in
                 \<lparr>node = b1, newState = ns,
                  trace = [TestOuterRadius, TestInnerRadius, TestFrustum] @ t1\<rparr>))
         else
           (let ns = STATE_INTERSECTING_OUTER_LOCALITY;
                (b1, t1) = changeIfNew ns origState b in
            \<lparr>node = b1, newState = ns,
             trace = [TestOuterRadius, TestInnerRadius] @ t1 @ [RenderNodes]\<rparr>))
      else
        (let ns = STATE_OUTSIDE_OUTER_LOCALITY;
             (b1, t1) = changeIfNew ns origState b in
         \<lparr>node = b1, newState = ns, trace = [TestOuterRadius] @ t1\<rparr>))"

text \<open>Lines 360-405: both memo blocks, one after the other.\<close>

definition refresh :: "boundingBox \<Rightarrow> env \<Rightarrow> (error \<times> boundingBox) + (boundingBox \<times> call list)" where
  "refresh b e =
     (case memoInit b e of
        Inl err \<Rightarrow> Inl err
      | Inr (b1, t1) \<Rightarrow> (let (b2, t2) = memoTransform b1 e in Inr (b2, t1 @ t2)))"

text \<open>
  \<^verbatim>\<open>_render\<close>: \<open>origLevel\<close> and \<open>origState\<close> are read on entry (lines 356-357), before
  the memo blocks run.
\<close>

definition render :: "boundingBox \<Rightarrow> env \<Rightarrow> (error \<times> boundingBox) + outcome" where
  "render b e =
     (let origLevel = level b; origState = state b in
      case refresh b e of
        Inl err \<Rightarrow> Inl err
      | Inr (b2, t) \<Rightarrow>
          (let out = classify origState origLevel b2 e in
           Inr (out\<lparr>trace := t @ trace out\<rparr>)))"

text \<open>
  Consecutive frames: \<^verbatim>\<open>_render\<close> once per environment, each on the node the previous
  frame left; an exception ends the run. The result lists the outcome of each frame.
\<close>

fun frames :: "boundingBox \<Rightarrow> env list \<Rightarrow> (error \<times> boundingBox) + outcome list" where
  "frames b [] = Inr []"
| "frames b (e # es) =
     (case render b e of
        Inl err \<Rightarrow> Inl err
      | Inr out \<Rightarrow>
          (case frames (node out) es of
             Inl err \<Rightarrow> Inl err
           | Inr outs \<Rightarrow> Inr (out # outs)))"

subsection \<open>Reading a trace\<close>

fun isRender :: "call \<Rightarrow> bool" where
  "isRender (RenderNode i) = True"
| "isRender RenderNodes = True"
| "isRender c = False"

definition renders :: "call list \<Rightarrow> call list" where
  "renders tr = filter isRender tr"

fun stateEvents :: "call list \<Rightarrow> (bbstate \<times> bbstate) list" where
  "stateEvents [] = []"
| "stateEvents (FireEvent (StateChanged old new) # tr) = (old, new) # stateEvents tr"
| "stateEvents (c # tr) = stateEvents tr"

fun lodEvents :: "call list \<Rightarrow> (int \<times> int) list" where
  "lodEvents [] = []"
| "lodEvents (FireEvent (LodSelected old new) # tr) = (old, new) # lodEvents tr"
| "lodEvents (c # tr) = lodEvents tr"

section \<open>The selection rule in the specification's words\<close>

text \<open>
  Section 4.3: scan the thresholds from the highest index to the lowest and select the
  first index whose threshold is at most the projected size.
\<close>

definition selectLevel :: "jsnum list \<Rightarrow> jsnum \<Rightarrow> nat option" where
  "selectLevel ls s = find (\<lambda>i. jsLe (ls ! i) s) (rev [0..<length ls])"

section \<open>Derived notions used to state the properties\<close>

text \<open>
  The value the local \<^verbatim>\<open>newState\<close> ends with (lines 407-426), as a function of the answers
  to the three tests on the node's view-space box.
\<close>

definition frustumStage :: "boundingBox \<Rightarrow> env \<Rightarrow> bbstate" where
  "frustumStage b e =
     (if testAxisBoxIntersectOuterRadius e (viewBox b) then
        (if testAxisBoxIntersectInnerRadius e (viewBox b) then
           (case testAxisBoxIntersection e (viewBox b) of
              OUTSIDE_FRUSTUM \<Rightarrow> STATE_INTERSECTING_INNER_LOCALITY
            | _ \<Rightarrow> STATE_INTERSECTING_FRUSTUM)
         else STATE_INTERSECTING_OUTER_LOCALITY)
      else STATE_OUTSIDE_OUTER_LOCALITY)"

text \<open>
  The level a frame selects, if it selects one: the cascade reached the frustum stage, a
  table is configured, and the selection rule of the specification picks an index.
\<close>

definition lodChoice :: "boundingBox \<Rightarrow> env \<Rightarrow> nat option" where
  "lodChoice b e =
     (if frustumStage b e = STATE_INTERSECTING_FRUSTUM
      then (case levels b of
              None \<Rightarrow> None
            | Some ls \<Rightarrow> selectLevel ls (getProjectedSize e (viewBox b)))
      else None)"

section \<open>Example nodes and frames\<close>

text \<open>The configuration of Example 1 in the class comment (lines 18-35).\<close>

definition exampleParams :: params where
  "exampleParams =
     \<lparr>p_xmin = Some (-2), p_ymin = Some (-2), p_zmin = Some (-2),
      p_xmax = Some 2, p_ymax = Some 2, p_zmax = Some 2,
      p_levels = Some [Num 10, Num 200, Num 400, Num 600]\<rparr>"

text \<open>Example 1 built with its four children, then given listeners for both events.\<close>

definition exampleNode :: boundingBox where
  "exampleNode =
     \<lparr>xmin = -2, ymin = -2, zmin = -2, xmax = 2, ymax = 2, zmax = 2,
      levels = Some [Num 10, Num 200, Num 400, Num 600], level = -1, state = STATE_INITIAL, memoLevel = 0,
      objectCoords = None, viewBox = None, children = [0, 1, 2, 3],
      listeners = {''state-changed'', ''lod-selected''}, fixedParams = True\<rparr>"

text \<open>The view-space box of the example under the identity transform.\<close>

definition exampleBox :: box3 where
  "exampleBox = \<lparr>bmin = [-2, -2, -2], bmax = [2, 2, 2]\<rparr>"

text \<open>The example after a frame inside the frustum with projected size 250.\<close>

definition exampleSelected :: boundingBox where
  "exampleSelected =
     exampleNode\<lparr>level := 1, state := STATE_INTERSECTING_FRUSTUM, memoLevel := 2,
                 viewBox := Some exampleBox\<rparr>"

text \<open>
  The example after a frame under the identity transform that selected no level, in the
  state given.
\<close>

definition exampleIn :: "bbstate \<Rightarrow> boundingBox" where
  "exampleIn st = exampleNode\<lparr>state := st, memoLevel := 2, viewBox := Some exampleBox\<rparr>"


text \<open>
  A node with a dynamic configuration function and the same four children: the
  constructor leaves it unconfigured, every frame at memo level 0 calls \<^verbatim>\<open>_init\<close>.
\<close>

definition dynamicNode :: boundingBox where
  "dynamicNode =
     \<lparr>xmin = 0, ymin = 0, zmin = 0, xmax = 0, ymax = 0, zmax = 0,
      levels = None, level = -1, state = STATE_INITIAL, memoLevel = 0,
      objectCoords = None, viewBox = None, children = [0, 1, 2, 3],
      listeners = {''state-changed'', ''lod-selected''}, fixedParams = False\<rparr>"

text \<open>
  The dynamic node after a frame under a model transform that is not the identity, with
  the example parameters and the outer-radius test failing.
\<close>

definition dynamicFar :: boundingBox where
  "dynamicFar =
     dynamicNode\<lparr>xmin := -2, ymin := -2, zmin := -2, xmax := 2, ymax := 2, zmax := 2,
                 levels := Some [Num 10, Num 200, Num 400, Num 600],
                 state := STATE_OUTSIDE_OUTER_LOCALITY,
                 objectCoords := Some
                   [[-2, -2, -2], [2, -2, -2], [2, 2, -2], [-2, 2, -2],
                    [-2, -2, 2], [2, -2, 2], [2, 2, 2], [-2, 2, 2]],
                 viewBox := Some \<lparr>bmin = [], bmax = []\<rparr>\<rparr>"

text \<open>Parameters whose table has two entries, for a node with four children.\<close>

definition badParams :: params where
  "badParams =
     \<lparr>p_xmin = Some 5, p_ymin = None, p_zmin = None,
      p_xmax = Some 6, p_ymax = None, p_zmax = None,
      p_levels = Some [Num 1, Num 2]\<rparr>"

text \<open>
  A frame: the parameters \<^verbatim>\<open>_getParams\<close> yields, whether the model transform is the
  identity, the answers of the outer test, the inner test and the frustum test, and the
  projected size.
\<close>

definition frameEnv :: "params \<Rightarrow> bool \<Rightarrow> bool \<Rightarrow> bool \<Rightarrow> frustumResult \<Rightarrow> jsnum \<Rightarrow> env" where
  "frameEnv p ident outer inner fr sz =
     \<lparr>getParams = p,
      getTransform = \<lparr>identity = ident, fixed = False, matrix = []\<rparr>,
      instancing = False,
      transformBox = (\<lambda>m cs. \<lparr>bmin = [], bmax = []\<rparr>),
      testAxisBoxIntersectOuterRadius = (\<lambda>vb. outer),
      testAxisBoxIntersectInnerRadius = (\<lambda>vb. inner),
      testAxisBoxIntersection = (\<lambda>vb. fr),
      getProjectedSize = (\<lambda>vb. sz)\<rparr>"

section \<open>The example is what the constructor builds\<close>

lemma example_constructed:
  "BoundingBox [0, 1, 2, 3] True exampleParams = Inr (exampleNode\<lparr>listeners := {}\<rparr>)"
  "addListener (addListener (exampleNode\<lparr>listeners := {}\<rparr>) ''lod-selected'') ''state-changed''
     = exampleNode"
  by (simp_all add: BoundingBox_def init_def initExtents_def exampleParams_def exampleNode_def
      orZero_def addListener_def ascendingLoop.simps insert_commute)

section \<open>The two loops\<close>

lemma ascendingLoop_iff:
  "ascendingLoop ls i \<longleftrightarrow> (\<exists>j. i \<le> j \<and> j < length ls \<and> jsGe (ls ! (j - 1)) (ls ! j))"
proof (induction ls i rule: ascendingLoop.induct)
  case (1 ls i)
  show ?case
  proof (cases "i < length ls")
    case False
    then show ?thesis by (subst ascendingLoop.simps) auto
  next
    case inside: True
    show ?thesis
    proof (cases "jsGe (ls ! (i - 1)) (ls ! i)")
      case True
      with inside show ?thesis by (subst ascendingLoop.simps) auto
    next
      case False
      have "ascendingLoop ls i = ascendingLoop ls (i + 1)"
        using False inside by (subst ascendingLoop.simps) simp
      also have "\<dots> \<longleftrightarrow> (\<exists>j. i + 1 \<le> j \<and> j < length ls \<and> jsGe (ls ! (j - 1)) (ls ! j))"
        using "1.IH"[OF inside False] .
      also have "\<dots> \<longleftrightarrow> (\<exists>j. i \<le> j \<and> j < length ls \<and> jsGe (ls ! (j - 1)) (ls ! j))"
      proof
        assume "\<exists>j. i + 1 \<le> j \<and> j < length ls \<and> jsGe (ls ! (j - 1)) (ls ! j)"
        then obtain j where "i + 1 \<le> j" "j < length ls" "jsGe (ls ! (j - 1)) (ls ! j)" by blast
        then have "i \<le> j \<and> j < length ls \<and> jsGe (ls ! (j - 1)) (ls ! j)" by simp
        then show "\<exists>j. i \<le> j \<and> j < length ls \<and> jsGe (ls ! (j - 1)) (ls ! j)" ..
      next
        assume "\<exists>j. i \<le> j \<and> j < length ls \<and> jsGe (ls ! (j - 1)) (ls ! j)"
        then obtain j where j: "i \<le> j" "j < length ls" "jsGe (ls ! (j - 1)) (ls ! j)" by blast
        with False have "j \<noteq> i" by auto
        with j have "i + 1 \<le> j \<and> j < length ls \<and> jsGe (ls ! (j - 1)) (ls ! j)" by simp
        then show "\<exists>j. i + 1 \<le> j \<and> j < length ls \<and> jsGe (ls ! (j - 1)) (ls ! j)" ..
      qed
      finally show ?thesis .
    qed
  qed
qed

text \<open>The loop throws exactly when some entry is \<^verbatim>\<open>>=\<close> its successor.\<close>

lemma ascendingLoop_adjacent:
  "ascendingLoop ls 1 \<longleftrightarrow> (\<exists>i. Suc i < length ls \<and> jsGe (ls ! i) (ls ! Suc i))"
proof -
  have "(\<exists>j. 1 \<le> j \<and> j < length ls \<and> jsGe (ls ! (j - 1)) (ls ! j)) \<longleftrightarrow>
        (\<exists>i. Suc i < length ls \<and> jsGe (ls ! i) (ls ! Suc i))"
  proof
    assume "\<exists>j. 1 \<le> j \<and> j < length ls \<and> jsGe (ls ! (j - 1)) (ls ! j)"
    then obtain j where j: "1 \<le> j" "j < length ls" "jsGe (ls ! (j - 1)) (ls ! j)" by blast
    then obtain k where k: "j = Suc k" by (cases j) auto
    with j have "Suc k < length ls \<and> jsGe (ls ! k) (ls ! Suc k)" by simp
    then show "\<exists>i. Suc i < length ls \<and> jsGe (ls ! i) (ls ! Suc i)" ..
  next
    assume "\<exists>i. Suc i < length ls \<and> jsGe (ls ! i) (ls ! Suc i)"
    then obtain i where "Suc i < length ls" "jsGe (ls ! i) (ls ! Suc i)" by blast
    then have "1 \<le> Suc i \<and> Suc i < length ls \<and> jsGe (ls ! (Suc i - 1)) (ls ! Suc i)" by simp
    then show "\<exists>j. 1 \<le> j \<and> j < length ls \<and> jsGe (ls ! (j - 1)) (ls ! j)" ..
  qed
  then show ?thesis by (simp only: ascendingLoop_iff)
qed

text \<open>
  On numbers, \<^verbatim>\<open>>=\<close> is the negation of \<^verbatim>\<open><\<close>; so for a table without NaN the loop
  throws exactly when the table is not strictly ascending.
\<close>

lemma jsGe_not_jsLt: "x \<noteq> NaN \<Longrightarrow> y \<noteq> NaN \<Longrightarrow> jsGe x y \<longleftrightarrow> \<not> jsLt x y"
  by (cases x; cases y) auto

lemma transp_jsLt: "transp jsLt"
proof (rule transpI)
  fix x y z
  assume "jsLt x y" and "jsLt y z"
  then show "jsLt x z" by (cases x; cases y; cases z) auto
qed

lemma adjacent_not_ascending:
  assumes "NaN \<notin> set ls"
  shows "(\<exists>i. Suc i < length ls \<and> jsGe (ls ! i) (ls ! Suc i)) \<longleftrightarrow> \<not> sorted_wrt jsLt ls"
proof -
  have nn: "ls ! i \<noteq> NaN" if "i < length ls" for i
    using assms nth_mem[OF that] by auto
  have "sorted_wrt jsLt ls \<longleftrightarrow> (\<forall>i. Suc i < length ls \<longrightarrow> jsLt (ls ! i) (ls ! Suc i))"
    by (rule sorted_wrt_iff_nth_Suc_transp[OF transp_jsLt])
  also have "\<dots> \<longleftrightarrow> \<not> (\<exists>i. Suc i < length ls \<and> jsGe (ls ! i) (ls ! Suc i))"
  proof
    assume a: "\<forall>i. Suc i < length ls \<longrightarrow> jsLt (ls ! i) (ls ! Suc i)"
    show "\<not> (\<exists>i. Suc i < length ls \<and> jsGe (ls ! i) (ls ! Suc i))"
    proof
      assume "\<exists>i. Suc i < length ls \<and> jsGe (ls ! i) (ls ! Suc i)"
      then obtain i where i: "Suc i < length ls" "jsGe (ls ! i) (ls ! Suc i)" by blast
      from i(1) have "ls ! i \<noteq> NaN" "ls ! Suc i \<noteq> NaN" by (simp_all add: nn)
      with i(2) have "\<not> jsLt (ls ! i) (ls ! Suc i)" by (simp add: jsGe_not_jsLt)
      with a i(1) show False by blast
    qed
  next
    assume a: "\<not> (\<exists>i. Suc i < length ls \<and> jsGe (ls ! i) (ls ! Suc i))"
    show "\<forall>i. Suc i < length ls \<longrightarrow> jsLt (ls ! i) (ls ! Suc i)"
    proof (intro allI impI)
      fix i assume i: "Suc i < length ls"
      then have "ls ! i \<noteq> NaN" "ls ! Suc i \<noteq> NaN" by (simp_all add: nn)
      moreover from a i have "\<not> jsGe (ls ! i) (ls ! Suc i)" by blast
      ultimately show "jsLt (ls ! i) (ls ! Suc i)" by (simp add: jsGe_not_jsLt)
    qed
  qed
  finally show ?thesis by blast
qed

lemma find_down:
  "find P (rev [0..<k]) = Some i \<longleftrightarrow> i < k \<and> P i \<and> (\<forall>j. i < j \<and> j < k \<longrightarrow> \<not> P j)"
proof (induction k)
  case 0
  show ?case by simp
next
  case (Suc k)
  show ?case
  proof (cases "P k")
    case True
    then show ?thesis by (auto simp: less_Suc_eq)
  next
    case False
    then show ?thesis using Suc by (auto simp: less_Suc_eq)
  qed
qed

lemma find_down_None: "find P (rev [0..<k]) = None \<longleftrightarrow> (\<forall>i<k. \<not> P i)"
  by (simp add: find_None_iff)

lemma lodLoop_find:
  "lodLoop k ls s ol b =
     (case find (\<lambda>i. jsLe (ls ! i) s) (rev [0..<k]) of
        None \<Rightarrow> (b, [])
      | Some i \<Rightarrow> lodSelected i ol b)"
  by (induction k) simp_all

section \<open>The memo blocks\<close>

lemma init_keeps:
  "init b p = Inr b' \<Longrightarrow>
     level b' = level b \<and> state b' = state b \<and> memoLevel b' = memoLevel b \<and>
     children b' = children b \<and> listeners b' = listeners b \<and> fixedParams b' = fixedParams b \<and>
     levels b' = (case p_levels p of None \<Rightarrow> levels b | Some ls \<Rightarrow> Some ls)"
  by (auto simp: init_def initExtents_def Let_def split: option.splits if_splits)

lemma init_throws_keeps:
  "init b p = Inl (err, b') \<Longrightarrow>
     level b' = level b \<and> state b' = state b \<and> levels b' = levels b \<and> memoLevel b' = memoLevel b"
  by (auto simp: init_def initExtents_def Let_def split: option.splits if_splits)

lemma memoInit_Inr:
  "memoInit b e = Inr (b1, t) \<Longrightarrow>
     level b1 = level b \<and> children b1 = children b \<and> listeners b1 = listeners b \<and>
     fixedParams b1 = fixedParams b \<and>
     state b1 = (if memoLevel b = 0 then STATE_INITIAL else state b) \<and>
     (memoLevel b \<noteq> 0 \<longrightarrow> memoLevel b1 = memoLevel b) \<and>
     (fixedParams b \<longrightarrow> memoLevel b1 \<noteq> 0 \<and> levels b1 = levels b) \<and>
     set t \<subseteq> {GetParams, GetTransform}"
  unfolding memoInit_def Let_def
  by (auto split: if_splits sum.splits prod.splits dest!: init_keeps)

lemma memoInit_Inl:
  "memoInit b e = Inl (err, b') \<Longrightarrow>
     level b' = level b \<and> levels b' = levels b \<and> state b' = STATE_INITIAL \<and>
     memoLevel b = 0 \<and> \<not> fixedParams b"
  unfolding memoInit_def Let_def
  by (auto split: if_splits sum.splits prod.splits dest!: init_throws_keeps)

lemma memoTransform_keeps:
  "memoTransform b e = (b2, t) \<Longrightarrow>
     level b2 = level b \<and> levels b2 = levels b \<and> children b2 = children b \<and>
     listeners b2 = listeners b \<and> fixedParams b2 = fixedParams b \<and> state b2 = state b \<and>
     (memoLevel b \<noteq> 0 \<longrightarrow> memoLevel b2 \<noteq> 0) \<and> (memoLevel b = 0 \<longrightarrow> memoLevel b2 = 0) \<and>
     set t \<subseteq> {GetTransform, Instancing}"
  unfolding memoTransform_def Let_def
  by (auto split: if_splits)

lemma refresh_Inr:
  assumes "refresh b e = Inr (b2, t)"
  shows "level b2 = level b" "children b2 = children b" "listeners b2 = listeners b"
    "fixedParams b2 = fixedParams b"
    "state b2 = (if memoLevel b = 0 then STATE_INITIAL else state b)"
    "memoLevel b \<noteq> 0 \<Longrightarrow> memoLevel b2 \<noteq> 0"
    "fixedParams b \<Longrightarrow> memoLevel b2 \<noteq> 0"
    "fixedParams b \<Longrightarrow> levels b2 = levels b"
    "set t \<subseteq> {GetParams, GetTransform, Instancing}"
proof -
  from assms obtain b1 t1 t2 where
    mi: "memoInit b e = Inr (b1, t1)" and mt: "memoTransform b1 e = (b2, t2)" and t: "t = t1 @ t2"
    by (auto simp: refresh_def Let_def split: sum.splits prod.splits)
  note a = memoInit_Inr[OF mi] and c = memoTransform_keeps[OF mt]
  show "level b2 = level b" using a c by simp
  show "children b2 = children b" using a c by simp
  show "listeners b2 = listeners b" using a c by simp
  show "fixedParams b2 = fixedParams b" using a c by simp
  show "state b2 = (if memoLevel b = 0 then STATE_INITIAL else state b)" using a c by simp
  show "memoLevel b \<noteq> 0 \<Longrightarrow> memoLevel b2 \<noteq> 0" using a c by simp
  show "fixedParams b \<Longrightarrow> memoLevel b2 \<noteq> 0" using a c by simp
  show "fixedParams b \<Longrightarrow> levels b2 = levels b" using a c by simp
  show "set t \<subseteq> {GetParams, GetTransform, Instancing}" using a c t by auto
qed

lemma refresh_Inl:
  "refresh b e = Inl (err, b') \<Longrightarrow>
     level b' = level b \<and> levels b' = levels b \<and> state b' = STATE_INITIAL \<and>
     memoLevel b = 0 \<and> \<not> fixedParams b"
  by (auto simp: refresh_def Let_def split: sum.splits prod.splits dest!: memoInit_Inl)

section \<open>The cascade\<close>

lemma changeIfNew_eq:
  "changeIfNew ns os b =
     (if ns \<noteq> os
      then (b\<lparr>state := ns\<rparr>,
            if ''state-changed'' \<in> listeners b then [FireEvent (StateChanged ns ns)] else [])
      else (b, []))"
  by (simp add: changeIfNew_def changeState_def Let_def)

lemma stateEvents_append: "stateEvents (xs @ ys) = stateEvents xs @ stateEvents ys"
  by (induction xs rule: stateEvents.induct) simp_all

lemma lodEvents_append: "lodEvents (xs @ ys) = lodEvents xs @ lodEvents ys"
  by (induction xs rule: lodEvents.induct) simp_all

lemma renders_append: "renders (xs @ ys) = renders xs @ renders ys"
  by (simp add: renders_def)

lemma quiet_trace:
  assumes "set t \<subseteq> {GetParams, GetTransform, Instancing}"
  shows "renders t = []" "stateEvents t = []" "lodEvents t = []"
    "count_list t TestOuterRadius = 0" "count_list t TestInnerRadius = 0"
    "count_list t TestFrustum = 0" "count_list t GetProjectedSize = 0"
  using assms by (induction t; auto simp: renders_def)+

lemma classify_newState: "newState (classify os ol b e) = frustumStage b e"
  by (simp add: classify_def inFrustum_def changeIfNew_eq frustumStage_def Let_def
      split: frustumResult.splits option.splits prod.splits)

lemma lodSelected_keeps:
  "lodSelected i ol b = (b', t) \<Longrightarrow>
     viewBox b' = viewBox b \<and> levels b' = levels b \<and> children b' = children b \<and>
     listeners b' = listeners b \<and> memoLevel b' = memoLevel b \<and> state b' = state b \<and>
     fixedParams b' = fixedParams b"
  by (auto simp: lodSelected_def Let_def split: if_splits)

lemma lodLoop_keeps:
  "lodLoop k ls s ol b = (b', t) \<Longrightarrow>
     viewBox b' = viewBox b \<and> levels b' = levels b \<and> children b' = children b \<and>
     listeners b' = listeners b \<and> memoLevel b' = memoLevel b \<and> state b' = state b \<and>
     fixedParams b' = fixedParams b"
  by (induction k) (auto split: if_splits dest: lodSelected_keeps)

lemma classify_keeps:
  "viewBox (node (classify os ol b e)) = viewBox b"
  "levels (node (classify os ol b e)) = levels b"
  "children (node (classify os ol b e)) = children b"
  "listeners (node (classify os ol b e)) = listeners b"
  "memoLevel (node (classify os ol b e)) = memoLevel b"
  by (auto simp: classify_def inFrustum_def changeIfNew_eq Let_def
      split: frustumResult.splits option.splits prod.splits dest: lodLoop_keeps)

lemma classify_state:
  "state (node (classify os ol b e)) =
     (if frustumStage b e \<noteq> os then frustumStage b e else state b)"
  by (auto simp: classify_def inFrustum_def changeIfNew_eq frustumStage_def Let_def
      split: frustumResult.splits option.splits prod.splits dest: lodLoop_keeps)

lemma lodLoop_select:
  "lodLoop (length ls) ls s ol b =
     (case selectLevel ls s of None \<Rightarrow> (b, []) | Some i \<Rightarrow> lodSelected i ol b)"
  by (simp add: lodLoop_find selectLevel_def)

lemma classify_stateEvents:
  "stateEvents (trace (classify os ol b e)) =
     (if frustumStage b e \<noteq> os \<and> ''state-changed'' \<in> listeners b
      then [(frustumStage b e, frustumStage b e)] else [])"
  by (simp add: classify_def inFrustum_def changeIfNew_eq frustumStage_def Let_def
      lodLoop_select lodSelected_def stateEvents_append
      split: frustumResult.splits option.splits prod.splits)

lemma classify_level:
  "level (node (classify os ol b e)) =
     (case lodChoice b e of None \<Rightarrow> level b | Some i \<Rightarrow> int i)"
  by (simp add: classify_def inFrustum_def changeIfNew_eq frustumStage_def Let_def
      lodLoop_select lodSelected_def lodChoice_def
      split: frustumResult.splits option.splits prod.splits)

lemma classify_lodEvents:
  "lodEvents (trace (classify os ol b e)) =
     (case lodChoice b e of
        None \<Rightarrow> []
      | Some i \<Rightarrow> if ol \<noteq> int i \<and> ''lod-selected'' \<in> listeners b then [(ol, int i)] else [])"
  by (simp add: classify_def inFrustum_def changeIfNew_eq frustumStage_def Let_def
      lodLoop_select lodSelected_def lodChoice_def lodEvents_append
      split: frustumResult.splits option.splits prod.splits)

lemma classify_renders:
  "renders (trace (classify os ol b e)) =
     (if frustumStage b e = STATE_INTERSECTING_OUTER_LOCALITY then [RenderNodes]
      else if frustumStage b e = STATE_INTERSECTING_FRUSTUM then
        (case levels b of
           None \<Rightarrow> [RenderNodes]
         | Some ls \<Rightarrow>
             (case lodChoice b e of
                None \<Rightarrow> []
              | Some i \<Rightarrow> [if length (children b) > 0 then RenderNode i else RenderNodes]))
      else [])"
  by (simp add: classify_def inFrustum_def changeIfNew_eq frustumStage_def Let_def
      lodLoop_select lodSelected_def lodChoice_def renders_def
      split: frustumResult.splits option.splits prod.splits)

lemma classify_counts:
  "count_list (trace (classify os ol b e)) TestOuterRadius = 1"
  "count_list (trace (classify os ol b e)) TestInnerRadius =
     (if testAxisBoxIntersectOuterRadius e (viewBox b) then 1 else 0)"
  "count_list (trace (classify os ol b e)) TestFrustum =
     (if testAxisBoxIntersectOuterRadius e (viewBox b) \<and>
         testAxisBoxIntersectInnerRadius e (viewBox b) then 1 else 0)"
  "count_list (trace (classify os ol b e)) GetProjectedSize =
     (if frustumStage b e = STATE_INTERSECTING_FRUSTUM \<and> levels b \<noteq> None then 1 else 0)"
  by (simp_all add: classify_def inFrustum_def changeIfNew_eq frustumStage_def Let_def
      lodLoop_select lodSelected_def
      split: frustumResult.splits option.splits prod.splits)

section \<open>A whole frame\<close>

lemma frustumStage_cong:
  "viewBox b' = viewBox b \<Longrightarrow> frustumStage b' e = frustumStage b e"
  by (simp add: frustumStage_def)

lemma lodChoice_cong:
  "viewBox b' = viewBox b \<Longrightarrow> levels b' = levels b \<Longrightarrow> lodChoice b' e = lodChoice b e"
  by (cases "levels b") (simp_all add: lodChoice_def frustumStage_def)

lemma render_Inr:
  assumes "render b e = Inr out"
  obtains b2 t where "refresh b e = Inr (b2, t)"
    and "node out = node (classify (state b) (level b) b2 e)"
    and "newState out = newState (classify (state b) (level b) b2 e)"
    and "trace out = t @ trace (classify (state b) (level b) b2 e)"
  using assms by (auto simp: render_def Let_def split: sum.splits prod.splits)

lemma render_Inl:
  "render b e = Inl (err, b') \<Longrightarrow> refresh b e = Inl (err, b')"
  by (auto simp: render_def Let_def split: sum.splits prod.splits)

lemma frame_summary:
  assumes "render b e = Inr out"
  shows "newState out = frustumStage (node out) e"
    and "state (node out) =
           (if newState out \<noteq> state b then newState out
            else if memoLevel b = 0 then STATE_INITIAL else state b)"
    and "stateEvents (trace out) =
           (if newState out \<noteq> state b \<and> ''state-changed'' \<in> listeners b
            then [(newState out, newState out)] else [])"
    and "level (node out) = (case lodChoice (node out) e of None \<Rightarrow> level b | Some i \<Rightarrow> int i)"
    and "lodEvents (trace out) =
           (case lodChoice (node out) e of
              None \<Rightarrow> []
            | Some i \<Rightarrow> if level b \<noteq> int i \<and> ''lod-selected'' \<in> listeners b
                        then [(level b, int i)] else [])"
    and "renders (trace out) =
           (if newState out = STATE_INTERSECTING_OUTER_LOCALITY then [RenderNodes]
            else if newState out = STATE_INTERSECTING_FRUSTUM then
              (case levels (node out) of
                 None \<Rightarrow> [RenderNodes]
               | Some ls \<Rightarrow>
                   (case lodChoice (node out) e of
                      None \<Rightarrow> []
                    | Some i \<Rightarrow> [if length (children b) > 0 then RenderNode i else RenderNodes]))
            else [])"
    and "count_list (trace out) TestOuterRadius = 1"
    and "count_list (trace out) TestInnerRadius =
           (if testAxisBoxIntersectOuterRadius e (viewBox (node out)) then 1 else 0)"
    and "count_list (trace out) TestFrustum =
           (if testAxisBoxIntersectOuterRadius e (viewBox (node out)) \<and>
               testAxisBoxIntersectInnerRadius e (viewBox (node out)) then 1 else 0)"
    and "count_list (trace out) GetProjectedSize =
           (if newState out = STATE_INTERSECTING_FRUSTUM \<and> levels (node out) \<noteq> None
            then 1 else 0)"
    and "children (node out) = children b"
    and "listeners (node out) = listeners b"
proof -
  from assms obtain b2 t where r: "refresh b e = Inr (b2, t)"
    and n: "node out = node (classify (state b) (level b) b2 e)"
    and s: "newState out = newState (classify (state b) (level b) b2 e)"
    and tr: "trace out = t @ trace (classify (state b) (level b) b2 e)"
    by (rule render_Inr)
  note rf = refresh_Inr[OF r]
  note q = quiet_trace[OF rf(9)]
  have vb: "viewBox (node out) = viewBox b2" and lv: "levels (node out) = levels b2"
    by (simp_all add: n classify_keeps)
  have fs: "frustumStage (node out) e = frustumStage b2 e"
    by (rule frustumStage_cong[OF vb])
  have lc: "lodChoice (node out) e = lodChoice b2 e"
    by (rule lodChoice_cong[OF vb lv])
  have ns: "newState out = frustumStage b2 e"
    by (simp add: s classify_newState)
  show "newState out = frustumStage (node out) e"
    by (simp only: ns fs)
  have "state (node out) =
           (if frustumStage b2 e \<noteq> state b then frustumStage b2 e
            else if memoLevel b = 0 then STATE_INITIAL else state b)"
    by (simp add: n classify_state rf(5))
  then show "state (node out) =
           (if newState out \<noteq> state b then newState out
            else if memoLevel b = 0 then STATE_INITIAL else state b)"
    by (simp only: ns)
  have "stateEvents (trace out) =
           (if frustumStage b2 e \<noteq> state b \<and> ''state-changed'' \<in> listeners b
            then [(frustumStage b2 e, frustumStage b2 e)] else [])"
    by (simp add: tr stateEvents_append q classify_stateEvents rf(3))
  then show "stateEvents (trace out) =
           (if newState out \<noteq> state b \<and> ''state-changed'' \<in> listeners b
            then [(newState out, newState out)] else [])"
    by (simp only: ns)
  have "level (node out) = (case lodChoice b2 e of None \<Rightarrow> level b | Some i \<Rightarrow> int i)"
    by (simp add: n classify_level rf(1) split: option.splits)
  then show "level (node out) = (case lodChoice (node out) e of None \<Rightarrow> level b | Some i \<Rightarrow> int i)"
    by (simp only: lc)
  have "lodEvents (trace out) =
           (case lodChoice b2 e of
              None \<Rightarrow> []
            | Some i \<Rightarrow> if level b \<noteq> int i \<and> ''lod-selected'' \<in> listeners b
                        then [(level b, int i)] else [])"
    by (simp add: tr lodEvents_append q classify_lodEvents rf(3) split: option.splits)
  then show "lodEvents (trace out) =
           (case lodChoice (node out) e of
              None \<Rightarrow> []
            | Some i \<Rightarrow> if level b \<noteq> int i \<and> ''lod-selected'' \<in> listeners b
                        then [(level b, int i)] else [])"
    by (simp only: lc)
  have "renders (trace out) =
           (if frustumStage b2 e = STATE_INTERSECTING_OUTER_LOCALITY then [RenderNodes]
            else if frustumStage b2 e = STATE_INTERSECTING_FRUSTUM then
              (case levels b2 of
                 None \<Rightarrow> [RenderNodes]
               | Some ls \<Rightarrow>
                   (case lodChoice b2 e of
                      None \<Rightarrow> []
                    | Some i \<Rightarrow> [if length (children b) > 0 then RenderNode i else RenderNodes]))
            else [])"
    by (simp add: tr renders_append q classify_renders rf(2) split: option.splits)
  then show "renders (trace out) =
           (if newState out = STATE_INTERSECTING_OUTER_LOCALITY then [RenderNodes]
            else if newState out = STATE_INTERSECTING_FRUSTUM then
              (case levels (node out) of
                 None \<Rightarrow> [RenderNodes]
               | Some ls \<Rightarrow>
                   (case lodChoice (node out) e of
                      None \<Rightarrow> []
                    | Some i \<Rightarrow> [if length (children b) > 0 then RenderNode i else RenderNodes]))
            else [])"
    by (simp only: ns lc lv)
  show "count_list (trace out) TestOuterRadius = 1"
    by (simp add: tr q classify_counts)
  show "count_list (trace out) TestInnerRadius =
           (if testAxisBoxIntersectOuterRadius e (viewBox (node out)) then 1 else 0)"
    by (simp add: tr q classify_counts vb)
  show "count_list (trace out) TestFrustum =
           (if testAxisBoxIntersectOuterRadius e (viewBox (node out)) \<and>
               testAxisBoxIntersectInnerRadius e (viewBox (node out)) then 1 else 0)"
    by (simp add: tr q classify_counts vb)
  have "count_list (trace out) GetProjectedSize =
           (if frustumStage b2 e = STATE_INTERSECTING_FRUSTUM \<and> levels b2 \<noteq> None
            then 1 else 0)"
    by (simp add: tr q classify_counts)
  then show "count_list (trace out) GetProjectedSize =
           (if newState out = STATE_INTERSECTING_FRUSTUM \<and> levels (node out) \<noteq> None
            then 1 else 0)"
    by (simp only: ns lv)
  show "children (node out) = children b"
    by (simp add: n classify_keeps rf(2))
  show "listeners (node out) = listeners b"
    by (simp add: n classify_keeps rf(3))
qed

section \<open>Reading the examples\<close>

lemmas frame_defs =
  render_def refresh_def memoInit_def memoTransform_def classify_def inFrustum_def
  changeIfNew_def changeState_def lodSelected_def init_def initExtents_def orZero_def Let_def
  frameEnv_def exampleNode_def exampleParams_def renders_def ascendingLoop.simps

lemma dynamic_constructed:
  "BoundingBox [0, 1, 2, 3] False exampleParams = Inr (dynamicNode\<lparr>listeners := {}\<rparr>)"
  by (simp add: BoundingBox_def dynamicNode_def)

lemma example_selected:
  "render exampleNode (frameEnv exampleParams True True True INSIDE_FRUSTUM (Num 250)) =
     Inr \<lparr>node = exampleSelected, newState = STATE_INTERSECTING_FRUSTUM,
          trace = [GetTransform, TestOuterRadius, TestInnerRadius, TestFrustum,
                   FireEvent (StateChanged STATE_INTERSECTING_FRUSTUM STATE_INTERSECTING_FRUSTUM),
                   GetProjectedSize, FireEvent (LodSelected (-1) 1), RenderNode 1]\<rparr>"
  by (simp add: frame_defs exampleSelected_def exampleBox_def)

lemma dynamic_far:
  "render dynamicNode (frameEnv exampleParams False False False OUTSIDE_FRUSTUM (Num 0)) =
     Inr \<lparr>node = dynamicFar, newState = STATE_OUTSIDE_OUTER_LOCALITY,
          trace = [GetParams, GetTransform, GetTransform, TestOuterRadius,
                   FireEvent (StateChanged STATE_OUTSIDE_OUTER_LOCALITY STATE_OUTSIDE_OUTER_LOCALITY)]\<rparr>"
  by (simp add: frame_defs dynamicNode_def dynamicFar_def)

section \<open>Level-of-detail selection\<close>

lemma selectLevel_Some:
  "selectLevel ls s = Some i \<longleftrightarrow>
     i < length ls \<and> jsLe (ls ! i) s \<and> (\<forall>j. i < j \<and> j < length ls \<longrightarrow> \<not> jsLe (ls ! j) s)"
  unfolding selectLevel_def by (rule find_down)

lemma selectLevel_None: "selectLevel ls s = None \<longleftrightarrow> (\<forall>i<length ls. \<not> jsLe (ls ! i) s)"
  unfolding selectLevel_def by (rule find_down_None)

lemma lodChoice_frustum:
  assumes "render b e = Inr out" and "newState out = STATE_INTERSECTING_FRUSTUM"
    and "levels (node out) = Some ls"
  shows "lodChoice (node out) e = selectLevel ls (getProjectedSize e (viewBox (node out)))"
  using assms frame_summary(1)[OF assms(1)] by (simp add: lodChoice_def)

text \<open>
  C1. When the cascade has reached the frustum stage and a threshold table is configured,
  the selected level is the highest index whose threshold is at most the projected size,
  which is what the scan from the highest index down finds; it becomes the stored level and
  the only dispatch of the frame. When no threshold is within the size, nothing is
  dispatched and the stored level stays. For the thresholds 10, 200, 400, 600: size 250
  selects index 1, size 1000 selects index 3, size 5 selects nothing and visits nothing.
\<close>

theorem lod_selects_highest_threshold:
  assumes "render b e = Inr out"
    and "newState out = STATE_INTERSECTING_FRUSTUM"
    and "levels (node out) = Some ls"
    and "s = getProjectedSize e (viewBox (node out))"
  shows "((\<exists>i<length ls. jsLe (ls ! i) s) \<longrightarrow>
            (\<exists>i<length ls. jsLe (ls ! i) s \<and> (\<forall>j<length ls. jsLe (ls ! j) s \<longrightarrow> j \<le> i) \<and>
               selectLevel ls s = Some i \<and> level (node out) = int i \<and>
               renders (trace out) = [if children b = [] then RenderNodes else RenderNode i])) \<and>
         ((\<forall>i<length ls. \<not> jsLe (ls ! i) s) \<longrightarrow>
            selectLevel ls s = None \<and> renders (trace out) = [] \<and> level (node out) = level b) \<and>
         (\<exists>o1 o2 o3.
            render exampleNode (frameEnv exampleParams True True True INSIDE_FRUSTUM (Num 250)) = Inr o1 \<and>
            level (node o1) = 1 \<and> renders (trace o1) = [RenderNode 1] \<and>
            render exampleNode (frameEnv exampleParams True True True INSIDE_FRUSTUM (Num 1000)) = Inr o2 \<and>
            level (node o2) = 3 \<and> renders (trace o2) = [RenderNode 3] \<and>
            render exampleNode (frameEnv exampleParams True True True INSIDE_FRUSTUM (Num 5)) = Inr o3 \<and>
            level (node o3) = -1 \<and> renders (trace o3) = [])"
proof (intro conjI impI)
  note fs = frame_summary[OF assms(1)]
  have lc: "lodChoice (node out) e = selectLevel ls s"
    using lodChoice_frustum[OF assms(1-3)] assms(4) by simp
  {
    assume "\<exists>i<length ls. jsLe (ls ! i) s"
    then have "selectLevel ls s \<noteq> None" by (simp add: selectLevel_None)
    then obtain i where i: "selectLevel ls s = Some i" by blast
    then have p: "i < length ls" "jsLe (ls ! i) s" "\<forall>j. i < j \<and> j < length ls \<longrightarrow> \<not> jsLe (ls ! j) s"
      by (simp_all add: selectLevel_Some)
    from p(3) have hi: "\<forall>j<length ls. jsLe (ls ! j) s \<longrightarrow> j \<le> i"
      by (meson not_le_imp_less)
    have lvl: "level (node out) = int i" using fs(4) lc i by simp
    have rn: "renders (trace out) = [if children b = [] then RenderNodes else RenderNode i]"
      using fs(6) lc i assms(2,3) by simp
    show "\<exists>i<length ls. jsLe (ls ! i) s \<and> (\<forall>j<length ls. jsLe (ls ! j) s \<longrightarrow> j \<le> i) \<and>
               selectLevel ls s = Some i \<and> level (node out) = int i \<and>
               renders (trace out) = [if children b = [] then RenderNodes else RenderNode i]"
      using p(1,2) hi i lvl rn by blast
  }
  {
    assume "\<forall>i<length ls. \<not> jsLe (ls ! i) s"
    then have n: "selectLevel ls s = None" by (simp add: selectLevel_None)
    then show "selectLevel ls s = None" .
    show "renders (trace out) = []" using fs(6) lc n assms(2,3) by simp
    show "level (node out) = level b" using fs(4) lc n by simp
  }
  show "\<exists>o1 o2 o3.
            render exampleNode (frameEnv exampleParams True True True INSIDE_FRUSTUM (Num 250)) = Inr o1 \<and>
            level (node o1) = 1 \<and> renders (trace o1) = [RenderNode 1] \<and>
            render exampleNode (frameEnv exampleParams True True True INSIDE_FRUSTUM (Num 1000)) = Inr o2 \<and>
            level (node o2) = 3 \<and> renders (trace o2) = [RenderNode 3] \<and>
            render exampleNode (frameEnv exampleParams True True True INSIDE_FRUSTUM (Num 5)) = Inr o3 \<and>
            level (node o3) = -1 \<and> renders (trace o3) = []"
    by (simp add: frame_defs)
qed

theorem lod_selects_highest_threshold_witness:
  "\<exists>out. render exampleNode (frameEnv exampleParams True True True INSIDE_FRUSTUM (Num 250)) = Inr out \<and>
     newState out = STATE_INTERSECTING_FRUSTUM \<and>
     levels (node out) = Some [Num 10, Num 200, Num 400, Num 600] \<and>
     (\<exists>i<length [Num 10, Num 200, Num 400, Num 600]. jsLe ([Num 10, Num 200, Num 400, Num 600] ! i) (Num 250)) \<and>
     selectLevel [Num 10, Num 200, Num 400, Num 600] (Num 250) = Some 1 \<and>
     level (node out) = 1 \<and> renders (trace out) = [RenderNode 1]"
proof -
  let ?e = "frameEnv exampleParams True True True INSIDE_FRUSTUM (Num 250)"
  obtain out where r: "render exampleNode ?e = Inr out"
    and n: "newState out = STATE_INTERSECTING_FRUSTUM"
    and l: "levels (node out) = Some [Num 10, Num 200, Num 400, Num 600]"
    by (simp add: frame_defs)
  have s: "Num 250 = getProjectedSize ?e (viewBox (node out))"
    by (simp add: frameEnv_def)
  have ex: "\<exists>i<length [Num 10, Num 200, Num 400, Num 600]. jsLe ([Num 10, Num 200, Num 400, Num 600] ! i) (Num 250)"
    by (rule exI[of _ 0]) simp
  have sel: "selectLevel [Num 10, Num 200, Num 400, Num 600] (Num 250) = Some 1"
    by (simp add: selectLevel_def upt_rec)
  from lod_selects_highest_threshold[OF r n l s] ex sel
  have "level (node out) = 1 \<and> renders (trace out) = [RenderNode 1]"
    by (auto simp: exampleNode_def)
  with r n l ex sel show ?thesis by blast
qed

section \<open>Child dispatch\<close>

text \<open>
  With one child per threshold, the only table \<^verbatim>\<open>_init\<close> accepts, a frame that selects
  the level \<open>i\<close> dispatches \<^verbatim>\<open>_renderNode(i)\<close> and nothing else, and \<open>i\<close> is the index of
  one of the children.
\<close>

lemma lod_dispatch_per_threshold:
  assumes "render b e = Inr out"
    and "newState out = STATE_INTERSECTING_FRUSTUM"
    and "levels (node out) = Some ls"
    and "selectLevel ls (getProjectedSize e (viewBox (node out))) = Some i"
    and "length (children b) = length ls"
  shows "i < length (children b) \<and> renders (trace out) = [RenderNode i]"
proof -
  note fs = frame_summary[OF assms(1)]
  have lc: "lodChoice (node out) e = Some i"
    using lodChoice_frustum[OF assms(1-3)] assms(4) by simp
  have i: "i < length ls" using assms(4) by (simp add: selectLevel_Some)
  have rn: "renders (trace out) = [if length (children b) > 0 then RenderNode i else RenderNodes]"
    using fs(6) lc assms(2,3) by simp
  show ?thesis using rn i assms(5) by auto
qed


section \<open>The stages of the cascade\<close>

text \<open>
  What a frame does at each stage it stops at: the state it computes, the dispatch, how
  often each collaborator is called, and the state it leaves stored. The stored state is
  the computed one unless the frame started at memo level 0 with that state already held:
  then the reset of line 361 stays.
\<close>

lemma outer_fail_frame:
  assumes "render b e = Inr out"
    and "\<not> testAxisBoxIntersectOuterRadius e (viewBox (node out))"
  shows "newState out = STATE_OUTSIDE_OUTER_LOCALITY"
    and "renders (trace out) = []"
    and "count_list (trace out) TestOuterRadius = 1"
    and "count_list (trace out) TestInnerRadius = 0"
    and "count_list (trace out) TestFrustum = 0"
    and "count_list (trace out) GetProjectedSize = 0"
    and "state (node out) =
           (if state b = STATE_OUTSIDE_OUTER_LOCALITY \<and> memoLevel b = 0
            then STATE_INITIAL else STATE_OUTSIDE_OUTER_LOCALITY)"
proof -
  note fs = frame_summary[OF assms(1)]
  show ns: "newState out = STATE_OUTSIDE_OUTER_LOCALITY"
    using fs(1) assms(2) by (simp add: frustumStage_def)
  show "renders (trace out) = []" using fs(6) ns by simp
  show "count_list (trace out) TestOuterRadius = 1" by (rule fs(7))
  show "count_list (trace out) TestInnerRadius = 0" using fs(8) assms(2) by simp
  show "count_list (trace out) TestFrustum = 0" using fs(9) assms(2) by simp
  show "count_list (trace out) GetProjectedSize = 0" using fs(10) ns by simp
  show "state (node out) =
           (if state b = STATE_OUTSIDE_OUTER_LOCALITY \<and> memoLevel b = 0
            then STATE_INITIAL else STATE_OUTSIDE_OUTER_LOCALITY)"
    using fs(2) ns by auto
qed

lemma inner_fail_frame:
  assumes "render b e = Inr out"
    and "testAxisBoxIntersectOuterRadius e (viewBox (node out))"
    and "\<not> testAxisBoxIntersectInnerRadius e (viewBox (node out))"
  shows "newState out = STATE_INTERSECTING_OUTER_LOCALITY"
    and "renders (trace out) = [RenderNodes]"
    and "count_list (trace out) TestInnerRadius = 1"
    and "count_list (trace out) TestFrustum = 0"
    and "count_list (trace out) GetProjectedSize = 0"
    and "state (node out) =
           (if state b = STATE_INTERSECTING_OUTER_LOCALITY \<and> memoLevel b = 0
            then STATE_INITIAL else STATE_INTERSECTING_OUTER_LOCALITY)"
proof -
  note fs = frame_summary[OF assms(1)]
  show ns: "newState out = STATE_INTERSECTING_OUTER_LOCALITY"
    using fs(1) assms(2,3) by (simp add: frustumStage_def)
  show "renders (trace out) = [RenderNodes]" using fs(6) ns by simp
  show "count_list (trace out) TestInnerRadius = 1" using fs(8) assms(2) by simp
  show "count_list (trace out) TestFrustum = 0" using fs(9) assms(3) by simp
  show "count_list (trace out) GetProjectedSize = 0" using fs(10) ns by simp
  show "state (node out) =
           (if state b = STATE_INTERSECTING_OUTER_LOCALITY \<and> memoLevel b = 0
            then STATE_INITIAL else STATE_INTERSECTING_OUTER_LOCALITY)"
    using fs(2) ns by auto
qed

lemma frustum_outside_frame:
  assumes "render b e = Inr out"
    and "testAxisBoxIntersectOuterRadius e (viewBox (node out))"
    and "testAxisBoxIntersectInnerRadius e (viewBox (node out))"
    and "testAxisBoxIntersection e (viewBox (node out)) = OUTSIDE_FRUSTUM"
  shows "newState out = STATE_INTERSECTING_INNER_LOCALITY"
    and "renders (trace out) = []"
    and "count_list (trace out) GetProjectedSize = 0"
    and "map snd (stateEvents (trace out)) =
           (if state b \<noteq> STATE_INTERSECTING_INNER_LOCALITY \<and> ''state-changed'' \<in> listeners b
            then [STATE_INTERSECTING_INNER_LOCALITY] else [])"
    and "state (node out) =
           (if state b = STATE_INTERSECTING_INNER_LOCALITY \<and> memoLevel b = 0
            then STATE_INITIAL else STATE_INTERSECTING_INNER_LOCALITY)"
proof -
  note fs = frame_summary[OF assms(1)]
  show ns: "newState out = STATE_INTERSECTING_INNER_LOCALITY"
    using fs(1) assms(2,3,4) by (simp add: frustumStage_def)
  show "renders (trace out) = []" using fs(6) ns by simp
  show "count_list (trace out) GetProjectedSize = 0" using fs(10) ns by simp
  show "map snd (stateEvents (trace out)) =
           (if state b \<noteq> STATE_INTERSECTING_INNER_LOCALITY \<and> ''state-changed'' \<in> listeners b
            then [STATE_INTERSECTING_INNER_LOCALITY] else [])"
    using fs(3) ns by simp
  show "state (node out) =
           (if state b = STATE_INTERSECTING_INNER_LOCALITY \<and> memoLevel b = 0
            then STATE_INITIAL else STATE_INTERSECTING_INNER_LOCALITY)"
    using fs(2) ns by auto
qed

text \<open>
  C2. On every frame in which the outer-radius test fails, the new classification state
  should be \<^verbatim>\<open>STATE_OUTSIDE_OUTER_LOCALITY\<close>, with no child visited and no call of the
  inner-radius test, the frustum test or the projected-size query. The visit and the
  calls are as claimed on every frame (see above); the state is not. The example is
  rendered with the outer test failing and ends in \<^verbatim>\<open>STATE_OUTSIDE_OUTER_LOCALITY\<close>;
  \<^verbatim>\<open>setXMin(-2)\<close> puts it back to memo level 0; the same frame again leaves the node in
  \<^verbatim>\<open>STATE_INITIAL\<close>, the reset of line 361, which lines 488-490 do not undo because the
  computed state equals the one read at line 357.
\<close>

theorem outer_fail_leaves_initial:
  "render exampleNode (frameEnv exampleParams True False False OUTSIDE_FRUSTUM (Num 0)) =
     Inr \<lparr>node = exampleIn STATE_OUTSIDE_OUTER_LOCALITY,
          newState = STATE_OUTSIDE_OUTER_LOCALITY,
          trace = [GetTransform, TestOuterRadius,
                   FireEvent (StateChanged STATE_OUTSIDE_OUTER_LOCALITY
                                           STATE_OUTSIDE_OUTER_LOCALITY)]\<rparr> \<and>
   render (setXMin (exampleIn STATE_OUTSIDE_OUTER_LOCALITY) (-2))
       (frameEnv exampleParams True False False OUTSIDE_FRUSTUM (Num 0)) =
     Inr \<lparr>node = exampleIn STATE_INITIAL,
          newState = STATE_OUTSIDE_OUTER_LOCALITY,
          trace = [GetTransform, TestOuterRadius]\<rparr>"
  by (simp add: frame_defs exampleIn_def exampleBox_def setXMin_def)

text \<open>
  C8. On every frame in which the outer-radius test passes and the inner-radius test
  fails, the new classification state should be \<^verbatim>\<open>STATE_INTERSECTING_OUTER_LOCALITY\<close>,
  with the children still visited and the frustum test not run. The visit and the calls
  are as claimed on every frame (see above); the state is not. The example is rendered
  with the inner test failing and ends in \<^verbatim>\<open>STATE_INTERSECTING_OUTER_LOCALITY\<close>;
  \<^verbatim>\<open>setXMin(-2)\<close> puts it back to memo level 0; the same frame again visits the children
  and leaves the node in \<^verbatim>\<open>STATE_INITIAL\<close> (lines 361 and 476-478).
\<close>

theorem inner_fail_leaves_initial:
  "render exampleNode (frameEnv exampleParams True True False OUTSIDE_FRUSTUM (Num 0)) =
     Inr \<lparr>node = exampleIn STATE_INTERSECTING_OUTER_LOCALITY,
          newState = STATE_INTERSECTING_OUTER_LOCALITY,
          trace = [GetTransform, TestOuterRadius, TestInnerRadius,
                   FireEvent (StateChanged STATE_INTERSECTING_OUTER_LOCALITY
                                           STATE_INTERSECTING_OUTER_LOCALITY),
                   RenderNodes]\<rparr> \<and>
   render (setXMin (exampleIn STATE_INTERSECTING_OUTER_LOCALITY) (-2))
       (frameEnv exampleParams True True False OUTSIDE_FRUSTUM (Num 0)) =
     Inr \<lparr>node = exampleIn STATE_INITIAL,
          newState = STATE_INTERSECTING_OUTER_LOCALITY,
          trace = [GetTransform, TestOuterRadius, TestInnerRadius, RenderNodes]\<rparr>"
  by (simp add: frame_defs exampleIn_def exampleBox_def setXMin_def)

text \<open>
  C3. On every frame in which both locality tests pass and the frustum test answers
  outside, the subtree should be culled and the final classification state should be
  \<^verbatim>\<open>STATE_INTERSECTING_INNER_LOCALITY\<close>, the failure having no state of its own. No child
  is visited, and the state computed and reported in a delivered event is as claimed on
  every frame (see above); the state the node ends with is not. The example is rendered
  with the frustum test answering outside and ends in
  \<^verbatim>\<open>STATE_INTERSECTING_INNER_LOCALITY\<close>; \<^verbatim>\<open>setXMin(-2)\<close> puts it back to memo level 0; the
  same frame again leaves the node in \<^verbatim>\<open>STATE_INITIAL\<close> (lines 361 and 469-471).
\<close>

theorem frustum_outside_leaves_initial:
  "render exampleNode (frameEnv exampleParams True True True OUTSIDE_FRUSTUM (Num 0)) =
     Inr \<lparr>node = exampleIn STATE_INTERSECTING_INNER_LOCALITY,
          newState = STATE_INTERSECTING_INNER_LOCALITY,
          trace = [GetTransform, TestOuterRadius, TestInnerRadius, TestFrustum,
                   FireEvent (StateChanged STATE_INTERSECTING_INNER_LOCALITY
                                           STATE_INTERSECTING_INNER_LOCALITY)]\<rparr> \<and>
   render (setXMin (exampleIn STATE_INTERSECTING_INNER_LOCALITY) (-2))
       (frameEnv exampleParams True True True OUTSIDE_FRUSTUM (Num 0)) =
     Inr \<lparr>node = exampleIn STATE_INITIAL,
          newState = STATE_INTERSECTING_INNER_LOCALITY,
          trace = [GetTransform, TestOuterRadius, TestInnerRadius, TestFrustum]\<rparr>"
  by (simp add: frame_defs exampleIn_def exampleBox_def setXMin_def)

section \<open>The state-changed event\<close>

text \<open>
  With a listener registered, a frame fires the event exactly when the state it computes
  differs from the state held on entry, whatever stage produced it, and fires it once.
\<close>

lemma state_changed_fires_iff:
  assumes "render b e = Inr out" and "''state-changed'' \<in> listeners b"
  shows "stateEvents (trace out) \<noteq> [] \<longleftrightarrow> newState out \<noteq> state b"
    and "length (stateEvents (trace out)) \<le> 1"
  using frame_summary(3)[OF assms(1)] assms(2) by simp_all

text \<open>Every event a frame fires carries the computed state in both fields.\<close>

lemma state_changed_payload:
  assumes "render b e = Inr out" and "ev \<in> set (stateEvents (trace out))"
  shows "fst ev = newState out \<and> snd ev = newState out"
  using frame_summary(3)[OF assms(1)] assms(2) by (auto split: if_splits)

text \<open>
  A frame that starts above memo level 0, or that changes the state, ends with the
  computed state stored; so the frame after it does not fire when it computes the same.
\<close>

lemma state_stored_unless_reset:
  assumes "render b e = Inr out" and "memoLevel b \<noteq> 0 \<or> newState out \<noteq> state b"
  shows "state (node out) = newState out"
  using frame_summary(2)[OF assms(1)] assms(2) by auto

text \<open>
  C4. A delivered state-changed event should carry the state held before the frame as
  \<^verbatim>\<open>oldState\<close>, different from \<^verbatim>\<open>newState\<close>. The example starts in
  \<^verbatim>\<open>STATE_INITIAL\<close> with a listener; on a frame whose outer-radius test fails the
  event handed to \<^verbatim>\<open>_fireEvent\<close> has \<^verbatim>\<open>oldState\<close> equal to \<^verbatim>\<open>newState\<close>, both
  \<^verbatim>\<open>STATE_OUTSIDE_OUTER_LOCALITY\<close>: \<^verbatim>\<open>_changeState\<close> overwrites the field before it
  reads it.
\<close>

theorem state_changed_payload_repeats_new_state:
  "state exampleNode = STATE_INITIAL \<and>
   render exampleNode (frameEnv exampleParams True False False OUTSIDE_FRUSTUM (Num 0)) =
     Inr \<lparr>node = exampleNode\<lparr>state := STATE_OUTSIDE_OUTER_LOCALITY, memoLevel := 2,
                             viewBox := Some exampleBox\<rparr>,
          newState = STATE_OUTSIDE_OUTER_LOCALITY,
          trace = [GetTransform, TestOuterRadius,
                   FireEvent (StateChanged STATE_OUTSIDE_OUTER_LOCALITY STATE_OUTSIDE_OUTER_LOCALITY)]\<rparr>"
  by (simp add: frame_defs exampleBox_def)

text \<open>
  C5. With a state-changed listener registered, the event should fire on a frame if and
  only if the state the frame computes differs from the state held before it, whatever
  stage produced it, and over consecutive frames with an unchanged computed state it
  should never fire twice. The first half holds on every frame (see above). The second
  does not: three consecutive frames of the dynamic node, each under a transform that is
  not the identity and with the outer-radius test failing, all compute
  \<^verbatim>\<open>STATE_OUTSIDE_OUTER_LOCALITY\<close>; the first fires, the second does not but leaves
  the stored state at \<^verbatim>\<open>STATE_INITIAL\<close> (the reset of line 361 is not undone), and
  the third fires again.
\<close>

theorem state_changed_fires_again_unchanged:
  "frames dynamicNode
     [frameEnv exampleParams False False False OUTSIDE_FRUSTUM (Num 0),
      frameEnv exampleParams False False False OUTSIDE_FRUSTUM (Num 0),
      frameEnv exampleParams False False False OUTSIDE_FRUSTUM (Num 0)] =
   Inr [\<lparr>node = dynamicFar, newState = STATE_OUTSIDE_OUTER_LOCALITY,
         trace = [GetParams, GetTransform, GetTransform, TestOuterRadius,
                  FireEvent (StateChanged STATE_OUTSIDE_OUTER_LOCALITY
                                          STATE_OUTSIDE_OUTER_LOCALITY)]\<rparr>,
        \<lparr>node = dynamicFar\<lparr>state := STATE_INITIAL\<rparr>,
         newState = STATE_OUTSIDE_OUTER_LOCALITY,
         trace = [GetParams, GetTransform, GetTransform, TestOuterRadius]\<rparr>,
        \<lparr>node = dynamicFar, newState = STATE_OUTSIDE_OUTER_LOCALITY,
         trace = [GetParams, GetTransform, GetTransform, TestOuterRadius,
                  FireEvent (StateChanged STATE_OUTSIDE_OUTER_LOCALITY
                                          STATE_OUTSIDE_OUTER_LOCALITY)]\<rparr>]"
  by (simp add: frame_defs dynamicNode_def dynamicFar_def)

section \<open>The stored level and the lod-selected event\<close>

text \<open>
  C6, as stated, fails. After the frame that selected level 1 (size 250), a frame with
  size 5, below the lowest threshold, selects no level; with a lod-selected listener
  registered it fires no event and the stored level stays 1, where the claim has an event
  with \<^verbatim>\<open>newLevel\<close> -1.
\<close>

theorem no_event_when_size_drops_below_lowest:
  "render exampleNode (frameEnv exampleParams True True True INSIDE_FRUSTUM (Num 250)) =
     Inr \<lparr>node = exampleSelected, newState = STATE_INTERSECTING_FRUSTUM,
          trace = [GetTransform, TestOuterRadius, TestInnerRadius, TestFrustum,
                   FireEvent (StateChanged STATE_INTERSECTING_FRUSTUM STATE_INTERSECTING_FRUSTUM),
                   GetProjectedSize, FireEvent (LodSelected (-1) 1), RenderNode 1]\<rparr> \<and>
   level exampleSelected = 1 \<and>
   render exampleSelected (frameEnv exampleParams True True True INSIDE_FRUSTUM (Num 5)) =
     Inr \<lparr>node = exampleSelected, newState = STATE_INTERSECTING_FRUSTUM,
          trace = [TestOuterRadius, TestInnerRadius, TestFrustum, GetProjectedSize]\<rparr>"
  by (simp add: frame_defs exampleSelected_def exampleBox_def)

text \<open>
  C6, amended. With a lod-selected listener registered, the event fires on a frame if and
  only if the frame selects a level (the cascade reached the frustum stage, a table is
  configured and some threshold is within the projected size) and the selected index
  differs from the stored level, which is the index selected most recently, or -1 when
  none ever was. The payload is the stored level and the selected index, which is never
  negative: a frame that selects no level fires nothing and keeps the stored level.
\<close>

theorem lod_selected_fires_on_new_selection:
  assumes "render b e = Inr out" and "''lod-selected'' \<in> listeners b"
  shows "lodEvents (trace out) =
           (case lodChoice (node out) e of
              None \<Rightarrow> []
            | Some i \<Rightarrow> if int i \<noteq> level b then [(level b, int i)] else []) \<and>
         level (node out) = (case lodChoice (node out) e of None \<Rightarrow> level b | Some i \<Rightarrow> int i) \<and>
         (lodEvents (trace out) \<noteq> [] \<longleftrightarrow> level (node out) \<noteq> level b) \<and>
         (\<forall>ev \<in> set (lodEvents (trace out)). fst ev = level b \<and> 0 \<le> snd ev \<and> snd ev = level (node out))"
proof -
  note fs = frame_summary[OF assms(1)]
  show ?thesis
  proof (cases "lodChoice (node out) e")
    case None
    then show ?thesis using fs(4,5) by simp
  next
    case (Some i)
    then show ?thesis using fs(4,5) assms(2) by auto
  qed
qed

theorem lod_selected_fires_on_new_selection_witness:
  "\<exists>out. render exampleNode (frameEnv exampleParams True True True INSIDE_FRUSTUM (Num 250)) = Inr out \<and>
     ''lod-selected'' \<in> listeners exampleNode \<and>
     lodChoice (node out) (frameEnv exampleParams True True True INSIDE_FRUSTUM (Num 250)) = Some 1 \<and>
     level exampleNode = -1 \<and>
     lodEvents (trace out) = [(-1, 1)] \<and> level (node out) = 1"
proof -
  let ?e = "frameEnv exampleParams True True True INSIDE_FRUSTUM (Num 250)"
  obtain out where r: "render exampleNode ?e = Inr out"
    and c: "lodChoice (node out) ?e = Some 1"
    by (simp add: frame_defs lodChoice_def frustumStage_def selectLevel_def upt_rec)
  have l: "''lod-selected'' \<in> listeners exampleNode" and v: "level exampleNode = -1"
    by (simp_all add: exampleNode_def)
  from lod_selected_fires_on_new_selection[OF r l] c v
  have "lodEvents (trace out) = [(-1, 1)] \<and> level (node out) = 1" by simp
  with r l c v show ?thesis by (intro exI[of _ out]) simp
qed

lemma frames_level_nonneg:
  "frames b es = Inr outs \<Longrightarrow> 0 \<le> level b \<Longrightarrow> out \<in> set outs \<Longrightarrow> 0 \<le> level (node out)"
proof (induction es arbitrary: b outs)
  case Nil
  then show ?case by simp
next
  case (Cons e es)
  from Cons.prems(1) obtain o1 os where r: "render b e = Inr o1"
    and f: "frames (node o1) es = Inr os" and outs: "outs = o1 # os"
    by (auto split: sum.splits)
  have l1: "0 \<le> level (node o1)"
    using frame_summary(4)[OF r] Cons.prems(2) by (simp split: option.splits)
  show ?case
  proof (cases "out = o1")
    case True
    with l1 show ?thesis by simp
  next
    case False
    with Cons.prems(3) outs have "out \<in> set os" by simp
    from Cons.IH[OF f l1 this] show ?thesis .
  qed
qed

text \<open>
  C10. A frame changes the stored level only to the index it selects, which is not
  negative; it never writes -1. A frame that does not reach the frustum stage, or on
  which no threshold is within the projected size, or that ends in a configuration error,
  leaves the stored level as it was; so once a level has been selected the stored level
  stays non-negative over any run of frames.
\<close>

theorem level_never_reset:
  "(\<forall>out. render b e = Inr out \<longrightarrow>
      (level (node out) \<noteq> level b \<longrightarrow>
         0 \<le> level (node out) \<and> lodChoice (node out) e = Some (nat (level (node out)))) \<and>
      (0 \<le> level b \<longrightarrow> 0 \<le> level (node out)) \<and>
      (newState out \<noteq> STATE_INTERSECTING_FRUSTUM \<longrightarrow> level (node out) = level b) \<and>
      (\<forall>ls. levels (node out) = Some ls \<and>
            (\<forall>i<length ls. \<not> jsLe (ls ! i) (getProjectedSize e (viewBox (node out)))) \<longrightarrow>
            level (node out) = level b)) \<and>
   (\<forall>err b'. render b e = Inl (err, b') \<longrightarrow> level b' = level b) \<and>
   (\<forall>es outs. frames b es = Inr outs \<and> 0 \<le> level b \<longrightarrow>
      (\<forall>out \<in> set outs. 0 \<le> level (node out)))"
proof (intro conjI allI impI ballI)
  fix out assume r: "render b e = Inr out"
  note fs = frame_summary[OF r]
  {
    assume "level (node out) \<noteq> level b"
    with fs(4) obtain i where i: "lodChoice (node out) e = Some i" "level (node out) = int i"
      by (cases "lodChoice (node out) e") auto
    then show "0 \<le> level (node out)" by simp
    from i show "lodChoice (node out) e = Some (nat (level (node out)))" by simp
  }
  {
    assume "0 \<le> level b"
    with fs(4) show "0 \<le> level (node out)" by (simp split: option.splits)
  }
  {
    assume "newState out \<noteq> STATE_INTERSECTING_FRUSTUM"
    with fs(1) have "lodChoice (node out) e = None" by (simp add: lodChoice_def)
    with fs(4) show "level (node out) = level b" by simp
  }
  {
    fix ls
    assume a: "levels (node out) = Some ls \<and>
            (\<forall>i<length ls. \<not> jsLe (ls ! i) (getProjectedSize e (viewBox (node out))))"
    then have "selectLevel ls (getProjectedSize e (viewBox (node out))) = None"
      by (simp add: selectLevel_None)
    with a have "lodChoice (node out) e = None" by (simp add: lodChoice_def)
    with fs(4) show "level (node out) = level b" by simp
  }
next
  fix err b' assume "render b e = Inl (err, b')"
  then have "refresh b e = Inl (err, b')" by (rule render_Inl)
  then show "level b' = level b" by (simp add: refresh_Inl)
next
  fix es outs out
  assume "frames b es = Inr outs \<and> 0 \<le> level b" and "out \<in> set outs"
  then show "0 \<le> level (node out)" using frames_level_nonneg by blast
qed

theorem level_never_reset_witness:
  "\<exists>o1 o2 o3 err b'.
     render exampleNode (frameEnv exampleParams True True True INSIDE_FRUSTUM (Num 250)) = Inr o1 \<and>
     level (node o1) \<noteq> level exampleNode \<and> 0 \<le> level (node o1) \<and>
     render exampleSelected (frameEnv exampleParams True False False OUTSIDE_FRUSTUM (Num 250)) = Inr o2 \<and>
     newState o2 \<noteq> STATE_INTERSECTING_FRUSTUM \<and> 0 \<le> level exampleSelected \<and>
     level (node o2) = level exampleSelected \<and>
     render exampleSelected (frameEnv exampleParams True True True INSIDE_FRUSTUM (Num 5)) = Inr o3 \<and>
     levels (node o3) = Some [Num 10, Num 200, Num 400, Num 600] \<and>
     level (node o3) = level exampleSelected \<and> level exampleSelected = 1 \<and>
     render dynamicFar (frameEnv badParams False False False OUTSIDE_FRUSTUM (Num 0)) = Inl (err, b') \<and>
     level b' = level dynamicFar"
proof -
  let ?e1 = "frameEnv exampleParams True True True INSIDE_FRUSTUM (Num 250)"
  let ?e2 = "frameEnv exampleParams True False False OUTSIDE_FRUSTUM (Num 250)"
  let ?e3 = "frameEnv exampleParams True True True INSIDE_FRUSTUM (Num 5)"
  let ?e4 = "frameEnv badParams False False False OUTSIDE_FRUSTUM (Num 0)"
  obtain o1 where r1: "render exampleNode ?e1 = Inr o1"
    and c1: "level (node o1) \<noteq> level exampleNode"
    by (simp add: frame_defs)
  obtain o2 where r2: "render exampleSelected ?e2 = Inr o2"
    and c2: "newState o2 \<noteq> STATE_INTERSECTING_FRUSTUM"
    by (simp add: frame_defs exampleSelected_def)
  obtain o3 where r3: "render exampleSelected ?e3 = Inr o3"
    and c3: "levels (node o3) = Some [Num 10, Num 200, Num 400, Num 600]"
    by (simp add: frame_defs exampleSelected_def)
  obtain err b' where r4: "render dynamicFar ?e4 = Inl (err, b')"
    by (simp add: frame_defs dynamicFar_def dynamicNode_def badParams_def)
  have v: "0 \<le> level exampleSelected" "level exampleSelected = 1"
    by (simp_all add: exampleSelected_def)
  have below: "\<forall>x \<in> set [Num 10, Num 200, Num 400, Num 600]. \<not> jsLe x (Num 5)"
    by simp
  have small: "\<forall>i<length [Num 10, Num 200, Num 400, Num 600].
      \<not> jsLe ([Num 10, Num 200, Num 400, Num 600] ! i) (getProjectedSize ?e3 (viewBox (node o3)))"
    using below unfolding all_set_conv_all_nth by (simp add: frameEnv_def)
  have a1: "0 \<le> level (node o1)"
    using level_never_reset[of exampleNode ?e1] r1 c1 by blast
  have a2: "level (node o2) = level exampleSelected"
    using level_never_reset[of exampleSelected ?e2] r2 c2 by blast
  have a3: "level (node o3) = level exampleSelected"
    using level_never_reset[of exampleSelected ?e3] r3 c3 small by blast
  have a4: "level b' = level dynamicFar"
    using level_never_reset[of dynamicFar ?e4] r4 by blast
  from r1 c1 a1 r2 c2 v a2 r3 c3 a3 r4 a4 show ?thesis
    by (intro exI[of _ o1] exI[of _ o2] exI[of _ o3] exI[of _ err] exI[of _ b']) simp
qed

section \<open>Rejected configurations\<close>

text \<open>
  C7, as stated, fails. The dynamic node stands in \<^verbatim>\<open>STATE_OUTSIDE_OUTER_LOCALITY\<close>
  with extents -2..2 and the four-entry table. A frame whose parameters carry a two-entry
  table raises the configuration error, and the node it leaves behind has the new
  extents and the state \<^verbatim>\<open>STATE_INITIAL\<close>; only the table is as before.
\<close>

theorem failed_reconfiguration_changes_node:
  "state dynamicFar = STATE_OUTSIDE_OUTER_LOCALITY \<and> xmin dynamicFar = -2 \<and>
   xmax dynamicFar = 2 \<and>
   render dynamicFar (frameEnv badParams False False False OUTSIDE_FRUSTUM (Num 0)) =
     Inl (NodeConfigExpectedException
            ''SceneJS.boundingBox levels property should have a value for each child node'',
          dynamicFar\<lparr>xmin := 5, ymin := 0, zmin := 0, xmax := 6, ymax := 0, zmax := 0,
                     state := STATE_INITIAL\<rparr>)"
  by (simp add: frame_defs dynamicNode_def dynamicFar_def badParams_def)

text \<open>A table that holds NaN passes the loop of lines 343-348 and is stored.\<close>

lemma nan_table_stored:
  "init (exampleNode\<lparr>children := [0, 1, 2]\<rparr>)
        (exampleParams\<lparr>p_levels := Some [Num 3, NaN, Num 1]\<rparr>) =
     Inr (exampleNode\<lparr>children := [0, 1, 2], levels := Some [Num 3, NaN, Num 1]\<rparr>)"
  by (simp add: init_def initExtents_def exampleNode_def exampleParams_def orZero_def Let_def
      ascendingLoop.simps)

lemma init_bad_levels:
  assumes "p_levels p = Some ls"
    and "length ls \<noteq> length (children b) \<or>
         (\<exists>i. Suc i < length ls \<and> jsGe (ls ! i) (ls ! Suc i))"
  shows "init b p =
           Inl (if length ls \<noteq> length (children b)
                then NodeConfigExpectedException
                  ''SceneJS.boundingBox levels property should have a value for each child node''
                else NodeConfigExpectedException
                  ''SceneJS.boundingBox levels property should be an ascending list of unique values'',
                initExtents b p)"
proof -
  have c: "children (initExtents b p) = children b"
    by (simp add: initExtents_def)
  show ?thesis
    using assms by (auto simp: init_def Let_def c ascendingLoop_adjacent simp del: One_nat_def)
qed

text \<open>
  C7, amended. For every table whose length differs from the child count, or in which
  some entry is \<^verbatim>\<open>>=\<close> its successor, which a table of numbers without NaN does exactly
  when it is not strictly ascending, \<^verbatim>\<open>_init\<close> raises the configuration error. The node
  it leaves behind has the six extents already overwritten with the new parameters; its
  table, its selected level and its state field are those \<^verbatim>\<open>_init\<close> was entered with. A
  frame of a dynamically configured node at memo level 0 raises the same error, and the
  table and the selected level held before the frame are unchanged.
\<close>

theorem bad_levels_rejected:
  assumes "p_levels p = Some ls"
    and "length ls \<noteq> length (children b) \<or>
         (\<exists>i. Suc i < length ls \<and> jsGe (ls ! i) (ls ! Suc i)) \<or>
         (NaN \<notin> set ls \<and> \<not> sorted_wrt jsLt ls)"
  shows "\<exists>err. init b p = Inl (err, initExtents b p) \<and>
           levels (initExtents b p) = levels b \<and>
           level (initExtents b p) = level b \<and>
           state (initExtents b p) = state b \<and>
           (memoLevel b = 0 \<and> \<not> fixedParams b \<and> getParams e = p \<longrightarrow>
              (\<exists>b'. render b e = Inl (err, b') \<and> levels b' = levels b \<and> level b' = level b))"
proof -
  let ?err = "if length ls \<noteq> length (children b)
                then NodeConfigExpectedException
                  ''SceneJS.boundingBox levels property should have a value for each child node''
                else NodeConfigExpectedException
                  ''SceneJS.boundingBox levels property should be an ascending list of unique values''"
  have bad: "length ls \<noteq> length (children b) \<or>
         (\<exists>i. Suc i < length ls \<and> jsGe (ls ! i) (ls ! Suc i))"
    using assms(2) adjacent_not_ascending[of ls] by blast
  have i: "init b p = Inl (?err, initExtents b p)"
    by (rule init_bad_levels[OF assms(1) bad])
  have k: "levels (initExtents b p) = levels b" "level (initExtents b p) = level b"
    "state (initExtents b p) = state b"
    by (simp_all add: initExtents_def)
  have r: "\<exists>b'. render b e = Inl (?err, b') \<and> levels b' = levels b \<and> level b' = level b"
    if h: "memoLevel b = 0 \<and> \<not> fixedParams b \<and> getParams e = p"
  proof -
    let ?b' = "initExtents (b\<lparr>state := STATE_INITIAL\<rparr>) p"
    have "length ls \<noteq> length (children (b\<lparr>state := STATE_INITIAL\<rparr>)) \<or>
         (\<exists>i. Suc i < length ls \<and> jsGe (ls ! i) (ls ! Suc i))"
      using bad by simp
    from init_bad_levels[OF assms(1) this]
    have "init (b\<lparr>state := STATE_INITIAL\<rparr>) p = Inl (?err, ?b')"
      by simp
    then have "render b e = Inl (?err, ?b')"
      using h by (simp add: render_def refresh_def memoInit_def Let_def)
    moreover have "levels ?b' = levels b \<and> level ?b' = level b"
      by (simp add: initExtents_def)
    ultimately show ?thesis by blast
  qed
  from i k r show ?thesis by blast
qed

theorem bad_levels_rejected_witness:
  "\<exists>err b'. p_levels badParams = Some [Num 1, Num 2] \<and>
     length [Num 1, Num 2] \<noteq> length (children dynamicFar) \<and>
     memoLevel dynamicFar = 0 \<and> \<not> fixedParams dynamicFar \<and>
     init dynamicFar badParams = Inl (err, initExtents dynamicFar badParams) \<and>
     levels (initExtents dynamicFar badParams) = Some [Num 10, Num 200, Num 400, Num 600] \<and>
     state (initExtents dynamicFar badParams) = state dynamicFar \<and>
     render dynamicFar (frameEnv badParams False False False OUTSIDE_FRUSTUM (Num 0)) =
       Inl (err, b') \<and>
     levels b' = Some [Num 10, Num 200, Num 400, Num 600] \<and> level b' = level dynamicFar"
proof -
  let ?e = "frameEnv badParams False False False OUTSIDE_FRUSTUM (Num 0)"
  have p: "p_levels badParams = Some [Num 1, Num 2]"
    by (simp add: badParams_def)
  have n: "length [Num 1, Num 2] \<noteq> length (children dynamicFar)"
    and m: "memoLevel dynamicFar = 0" "\<not> fixedParams dynamicFar" "getParams ?e = badParams"
    and l: "levels dynamicFar = Some [Num 10, Num 200, Num 400, Num 600]"
    by (simp_all add: dynamicFar_def dynamicNode_def frameEnv_def)
  from n have d: "length [Num 1, Num 2] \<noteq> length (children dynamicFar) \<or>
      (\<exists>i. Suc i < length [Num 1, Num 2] \<and> jsGe ([Num 1, Num 2] ! i) ([Num 1, Num 2] ! Suc i)) \<or>
      (NaN \<notin> set [Num 1, Num 2] \<and> \<not> sorted_wrt jsLt [Num 1, Num 2])"
    by (rule disjI1)
  from bad_levels_rejected[OF p d, of ?e] m l p n show ?thesis
    by auto
qed

end
